theory Spec2Isabelle
  imports Complex_Main "HOL-Library.Sublist"
begin

section \<open>FS25 engine and transmission configuration tool\<close>

text \<open>
  A shallow embedding of the computing parts of \<^verbatim>\<open>fs25_config_tool.py\<close>: the torque
  curve generator, the gear ratio calculator, the XML emitter and the preset loader.

  Conventions of the embedding.
  \<^item> A Python \<^verbatim>\<open>float\<close> is a \<^typ>\<open>real\<close>: the arithmetic of the model is exact, the
    rounding of IEEE doubles is not modelled. A Python \<^verbatim>\<open>int\<close> is an \<^typ>\<open>int\<close>.
  \<^item> A raised exception is the \<open>Inl\<close> branch of a sum, the returned value the \<open>Inr\<close> branch.
  \<^item> A \<^verbatim>\<open>for\<close> loop whose body cannot fail is a \<open>map\<close> over the index list, a loop
    whose body can fail is a recursive function that stops at the first error.
\<close>

subsection \<open>Errors and Python primitives\<close>

datatype py_error =
    ValueError string
  | ZeroDivisionError
  | IndexError
  | KeyError string
  | TypeError

text \<open>Float division \<^verbatim>\<open>a / b\<close>: Python raises on a zero divisor.\<close>

definition py_div :: "real \<Rightarrow> real \<Rightarrow> py_error + real" where
  "py_div a b = (if b = 0 then Inl ZeroDivisionError else Inr (a / b))"

text \<open>
  Rounding to the nearest integer, a tie going to the even one, as Python's \<^verbatim>\<open>round\<close> and
  its fixed formats do; \<^verbatim>\<open>round(x, 3)\<close> is that rounding on the multiples of \<open>1/1000\<close>.
\<close>

definition round_half_even :: "real \<Rightarrow> int" where
  "round_half_even y =
     (let f = \<lfloor>y\<rfloor>; d = y - of_int f
      in if d < 1 / 2 then f
         else if 1 / 2 < d then f + 1
         else if even f then f else f + 1)"

definition py_round3 :: "real \<Rightarrow> real" where
  "py_round3 x = of_int (round_half_even (x * 1000)) / 1000"

subsection \<open>GearRatioCalculator\<close>

record gear_ratios =
  forward :: "real list"
  reverse :: "real list"

text \<open>
  The \<^verbatim>\<open>if/elif\<close> chain of the forward loop: the ratio of gear \<open>i\<close> before the low
  gearing boost and before rounding. Every type other than the three named ones takes
  the manual branch.
\<close>

definition base_ratio :: "string \<Rightarrow> int \<Rightarrow> nat \<Rightarrow> real" where
  "base_ratio transmission_type num_forward i =
     (if transmission_type = ''CVT'' then
        (if num_forward = 1 then 4.2
         else 4.2 - (3.0 * real i / real_of_int (num_forward - 1)))
      else if transmission_type = ''Automatic'' then
        (if num_forward = 1 then 4.5
         else 4.5 - (3.2 * real i / real_of_int (num_forward - 1)))
      else if transmission_type = ''PowerShift'' then
        (if num_forward = 1 then 4.8
         else 4.8 - (3.5 * real i / real_of_int (num_forward - 1)))
      else
        (if num_forward = 1 then 4.784
         else if num_forward = 6 then
           (let ratios = [4.784, 2.423, 1.443, 1.000, 0.826, 0.643]
            in if i < length ratios then ratios ! i
               else 4.0 - (3.0 * real i / real_of_int (num_forward - 1)))
         else if num_forward = 7 then
           (let ratios = [5.0, 2.8, 1.8, 1.2, 1.000, 0.8, 0.6]
            in if i < length ratios then ratios ! i
               else 4.0 - (3.0 * real i / real_of_int (num_forward - 1)))
         else 4.8 - (3.5 * real i / real_of_int (num_forward - 1))))"

text \<open>
  The rest of the loop body: the boost of the low gears
  (\<^verbatim>\<open>i < num_forward * 0.25\<close>, an integer compared with a float) and the rounding.
\<close>

definition forward_ratio :: "string \<Rightarrow> int \<Rightarrow> bool \<Rightarrow> real \<Rightarrow> nat \<Rightarrow> real" where
  "forward_ratio transmission_type num_forward enable_low_gearing low_gear_boost i =
     (let ratio = base_ratio transmission_type num_forward i
      in py_round3
           (if enable_low_gearing \<and> real i < real_of_int num_forward * 0.25
            then ratio * (1.0 + (low_gear_boost / 100.0))
            else ratio))"

text \<open>
  The reverse loop reads \<^verbatim>\<open>forward_ratios[0]\<close> in its body, so only when it runs at least
  once; on an empty list that read raises.
\<close>

definition reverse_ratios_of :: "real list \<Rightarrow> int \<Rightarrow> py_error + real list" where
  "reverse_ratios_of forward_ratios num_reverse =
     (if num_reverse \<le> 0 then Inr []
      else case forward_ratios of
             [] \<Rightarrow> Inl IndexError
           | f0 # _ \<Rightarrow>
               Inr (map (\<lambda>i. py_round3 (f0 * (1.2 + real i * 0.3))) [0..<nat num_reverse]))"

definition calculate_gear_ratios ::
  "string \<Rightarrow> int \<Rightarrow> int \<Rightarrow> real \<Rightarrow> bool \<Rightarrow> real \<Rightarrow> py_error + gear_ratios" where
  "calculate_gear_ratios transmission_type num_forward num_reverse top_speed
       enable_low_gearing low_gear_boost =
     (if num_forward \<le> 0 then
        Inl (ValueError ''Number of forward gears must be greater than 0'')
      else if num_reverse < 0 then
        Inl (ValueError ''Number of reverse gears cannot be negative'')
      else if top_speed \<le> 0 then
        Inl (ValueError ''Top speed must be greater than 0'')
      else
        (let forward_ratios =
               map (forward_ratio transmission_type num_forward enable_low_gearing low_gear_boost)
                   [0..<nat num_forward]
         in case reverse_ratios_of forward_ratios num_reverse of
              Inl e \<Rightarrow> Inl e
            | Inr reverse_ratios \<Rightarrow>
                Inr \<lparr>forward = forward_ratios, reverse = reverse_ratios\<rparr>))"



subsection \<open>TorqueCurveGenerator\<close>

definition peak_rpm_of :: "real \<Rightarrow> real \<Rightarrow> real" where
  "peak_rpm_of min_rpm max_rpm = min_rpm + (max_rpm - min_rpm) * 0.65"

definition base_torque_of :: "real \<Rightarrow> real \<Rightarrow> real" where
  "base_torque_of hp peak_rpm = (hp * 9549) / peak_rpm"

text \<open>The first loop: \<^verbatim>\<open>rpm = min_rpm + (max_rpm - min_rpm) * (i / 9.0)\<close> for \<open>i\<close> in \<open>range(10)\<close>.\<close>

definition rpm_points_of :: "real \<Rightarrow> real \<Rightarrow> real list" where
  "rpm_points_of min_rpm max_rpm =
     map (\<lambda>i. min_rpm + (max_rpm - min_rpm) * (real i / 9.0)) [0..<10]"

text \<open>
  The shape factor of one sample. The divisors are computed values, so the divisions are
  the raising ones. \<^verbatim>\<open>x ** y\<close> is \<open>x powr y\<close>: on every path behind the validation
  of \<open>generate_torque_curve\<close> the base is not negative (for a negative base Python would
  give a complex number).
\<close>

definition torque_factor :: "bool \<Rightarrow> real \<Rightarrow> real \<Rightarrow> real \<Rightarrow> py_error + real" where
  "torque_factor turbocharged peak_rpm max_rpm rpm =
     (if turbocharged then
        (if rpm < peak_rpm * 0.8 then
           (case py_div rpm (peak_rpm * 0.8) of
              Inl e \<Rightarrow> Inl e
            | Inr q \<Rightarrow> Inr (q powr 0.7))
         else
           (case py_div (rpm - peak_rpm * 0.8) (max_rpm - peak_rpm * 0.8) of
              Inl e \<Rightarrow> Inl e
            | Inr q \<Rightarrow> Inr (max 0.7 (1.0 - q powr 0.5))))
      else
        (if rpm < peak_rpm then
           (case py_div rpm peak_rpm of
              Inl e \<Rightarrow> Inl e
            | Inr q \<Rightarrow> Inr (q powr 0.8))
         else
           (case py_div (rpm - peak_rpm) (max_rpm - peak_rpm) of
              Inl e \<Rightarrow> Inl e
            | Inr q \<Rightarrow> Inr (max 0.5 (1.0 - q powr 0.3)))))"

text \<open>
  The second loop, over the sampled RPM values. \<^verbatim>\<open>rpm / max_rpm\<close> stands behind the
  check \<^verbatim>\<open>max_rpm <= min_rpm\<close> and \<^verbatim>\<open>min_rpm < 0\<close>, so its divisor is positive.
\<close>

fun torque_points_of ::
  "real \<Rightarrow> bool \<Rightarrow> real \<Rightarrow> real \<Rightarrow> real list \<Rightarrow> py_error + (real \<times> real) list" where
  "torque_points_of base_torque turbocharged peak_rpm max_rpm [] = Inr []"
| "torque_points_of base_torque turbocharged peak_rpm max_rpm (rpm # rpms) =
     (case torque_factor turbocharged peak_rpm max_rpm rpm of
        Inl e \<Rightarrow> Inl e
      | Inr factor \<Rightarrow>
          (case torque_points_of base_torque turbocharged peak_rpm max_rpm rpms of
             Inl e \<Rightarrow> Inl e
           | Inr points \<Rightarrow> Inr ((rpm / max_rpm, base_torque * factor) # points)))"

definition generate_torque_curve ::
  "real \<Rightarrow> real \<Rightarrow> real \<Rightarrow> bool \<Rightarrow> py_error + (real \<times> real) list" where
  "generate_torque_curve hp min_rpm max_rpm turbocharged =
     (if hp \<le> 0 then
        Inl (ValueError ''Horsepower must be greater than 0'')
      else if min_rpm < 0 then
        Inl (ValueError ''Minimum RPM cannot be negative'')
      else if max_rpm \<le> min_rpm then
        Inl (ValueError ''Maximum RPM must be greater than minimum RPM'')
      else
        (let peak_rpm = peak_rpm_of min_rpm max_rpm
         in if peak_rpm \<le> 0 then
              Inl (ValueError ''Peak RPM calculation resulted in zero or negative value'')
            else
              torque_points_of (base_torque_of hp peak_rpm) turbocharged peak_rpm max_rpm
                (rpm_points_of min_rpm max_rpm)))"

subsection \<open>XMLGenerator: formatting\<close>

text \<open>
  Strings are lists of characters, a character standing for a code point below 256.
  \<open>is_space\<close> is the whitespace of \<^verbatim>\<open>str.strip()\<close> and of the pattern \<^verbatim>\<open>\s\<close> in that
  range: tab to carriage return, the four separators 28 to 31, the space, and the code
  points 133 and 160.
\<close>

definition is_space :: "char \<Rightarrow> bool" where
  "is_space c =
     (c \<in> {CHR 0x09, CHR 0x0A, CHR 0x0B, CHR 0x0C, CHR 0x0D, CHR 0x1C, CHR 0x1D, CHR 0x1E,
            CHR 0x1F, CHR 0x20, CHR 0x85, CHR 0xA0})"

definition strip :: "string \<Rightarrow> string" where
  "strip s = rev (dropWhile is_space (rev (dropWhile is_space s)))"

text \<open>
  \<^verbatim>\<open>re.sub(r'\s+', ' ', s)\<close>: every maximal run of whitespace becomes one space. The flag
  says whether the previous character was whitespace.
\<close>

fun collapse_ws :: "bool \<Rightarrow> string \<Rightarrow> string" where
  "collapse_ws in_run [] = []"
| "collapse_ws in_run (c # cs) =
     (if is_space c then
        (if in_run then collapse_ws True cs else CHR '' '' # collapse_ws True cs)
      else c # collapse_ws False cs)"

text \<open>
  \<^verbatim>\<open>re.split(r'(<[^>]+>)', s)\<close>: the texts between the tags and the tags themselves, in
  order. A tag is \<open><\<close>, at least one character other than \<open>>\<close>, and the next \<open>>\<close>. The
  scanner keeps the text read since the last tag and, behind a \<open><\<close>, the candidate tag;
  a candidate that meets no \<open>>\<close> before the end, or \<open><>\<close>, is text.
\<close>

fun split_scan :: "string \<Rightarrow> string \<Rightarrow> string option \<Rightarrow> string list" where
  "split_scan [] text None = [text]"
| "split_scan [] text (Some tag) = [text @ tag]"
| "split_scan (c # cs) text None =
     (if c = CHR ''<'' then split_scan cs text (Some [c])
      else split_scan cs (text @ [c]) None)"
| "split_scan (c # cs) text (Some tag) =
     (if c = CHR ''>'' then
        (if tag = ''<'' then split_scan cs (text @ ''<>'') None
         else text # (tag @ [c]) # split_scan cs [] None)
      else split_scan cs text (Some (tag @ [c])))"

definition re_split_tags :: "string \<Rightarrow> string list" where
  "re_split_tags s = split_scan s [] None"

text \<open>The loop of \<open>format_xml\<close> over the parts, with the indentation level as its state.\<close>

fun format_parts :: "int \<Rightarrow> string list \<Rightarrow> string list" where
  "format_parts indent_level [] = []"
| "format_parts indent_level (p # ps) =
     (let part = strip p
      in if part = [] then format_parts indent_level ps
         else if prefix ''<?xml'' part then
           part # format_parts indent_level ps
         else if prefix ''<!--'' part then
           (replicate (nat indent_level) CHR '' '' @ part) # format_parts indent_level ps
         else if prefix ''</'' part then
           (let indent_level = max 0 (indent_level - 1)
            in (replicate (nat indent_level) CHR '' '' @ part) # format_parts indent_level ps)
         else if prefix ''<'' part \<and> \<not> suffix ''/>'' part then
           (replicate (nat indent_level) CHR '' '' @ part) # format_parts (indent_level + 1) ps
         else
           (replicate (nat indent_level) CHR '' '' @ part) # format_parts indent_level ps)"

fun join_lines :: "string list \<Rightarrow> string" where
  "join_lines [] = []"
| "join_lines [l] = l"
| "join_lines (l # ls) = l @ [CHR 0x0A] @ join_lines ls"

definition format_xml_lines :: "string \<Rightarrow> string list" where
  "format_xml_lines xml_string =
     format_parts 0 (re_split_tags (collapse_ws False (strip xml_string)))"

definition format_xml :: "string \<Rightarrow> string" where
  "format_xml xml_string = join_lines (format_xml_lines xml_string)"

subsection \<open>XMLGenerator: the documents\<close>

text \<open>
  The dictionaries \<open>engine_data\<close> and \<open>transmission_data\<close> as \<open>get_engine_data\<close> and
  \<open>get_transmission_data\<close> build them, one field for each key. The two keys that the
  generators read with \<^verbatim>\<open>.get(key, default)\<close> may be absent.
\<close>

record engine_data =
  e_name :: string
  e_cost :: int
  e_horsepower :: real
  e_min_rpm :: real
  e_max_rpm :: real
  e_fuel_usage_scale :: real
  e_turbocharged :: bool

record transmission_data =
  t_name :: string
  t_type :: string
  t_cost :: int
  t_top_speed :: real
  t_num_forward :: int
  t_num_reverse :: int
  t_enable_low_gearing :: "bool option"
  t_low_gear_boost :: "real option"

text \<open>
  The conversions of Python that the f-strings use and the repository does not define:
  \<^verbatim>\<open>{x}\<close> for a float and for an int, and the fixed formats \<^verbatim>\<open>{x:.0f}\<close>, \<^verbatim>\<open>{x:.2f}\<close>,
  \<^verbatim>\<open>{x:.3f}\<close>. They are parameters of the model.
\<close>

record formatters =
  str_float :: "real \<Rightarrow> string"
  str_int :: "int \<Rightarrow> string"
  fmt_0f :: "real \<Rightarrow> string"
  fmt_2f :: "real \<Rightarrow> string"
  fmt_3f :: "real \<Rightarrow> string"

text \<open>\<^verbatim>\<open>max(...)\<close> of a sequence: the empty sequence raises.\<close>

fun py_max :: "real list \<Rightarrow> py_error + real" where
  "py_max [] = Inl (ValueError ''max() arg is an empty sequence'')"
| "py_max (x # xs) = Inr (fold max xs x)"

text \<open>
  The loop that turns the curve into \<open>(actual_rpm, torque_scale)\<close> pairs; the maximum
  is taken over the whole curve in each round.
\<close>

fun rescale_points ::
  "real \<Rightarrow> (real \<times> real) list \<Rightarrow> (real \<times> real) list \<Rightarrow> py_error + (real \<times> real) list" where
  "rescale_points max_rpm torque_curve [] = Inr []"
| "rescale_points max_rpm torque_curve ((norm_rpm, torque) # rest) =
     (case py_max (map snd torque_curve) of
        Inl e \<Rightarrow> Inl e
      | Inr m \<Rightarrow>
          (case py_div torque m of
             Inl e \<Rightarrow> Inl e
           | Inr torque_scale \<Rightarrow>
               (case rescale_points max_rpm torque_curve rest of
                  Inl e \<Rightarrow> Inl e
                | Inr points \<Rightarrow> Inr ((norm_rpm * max_rpm, torque_scale) # points))))"

definition actual_rpm_torque_of :: "real \<Rightarrow> (real \<times> real) list \<Rightarrow> py_error + (real \<times> real) list" where
  "actual_rpm_torque_of max_rpm torque_curve = rescale_points max_rpm torque_curve torque_curve"

text \<open>The pieces of the templates. \<open>motor_tag\<close> is the opening tag of the motor element.\<close>

definition xml_prolog :: string where
  \<open>xml_prolog =
     ''<?xml version="1.0" encoding="utf-8" standalone="no" ?>'' @ [CHR 0x0A] @
     ''<motorConfigurations>'' @ [CHR 0x0A]\<close>

definition motor_configuration_open :: "string \<Rightarrow> string \<Rightarrow> string \<Rightarrow> string" where
  \<open>motor_configuration_open name hp price =
     ''    <motorConfiguration name="'' @ name @ ''" hp="'' @ hp @ ''" price="'' @ price @
     ''">'' @ [CHR 0x0A]\<close>

definition motor_tag :: "string \<Rightarrow> string \<Rightarrow> string \<Rightarrow> string \<Rightarrow> string" where
  \<open>motor_tag torque_scale min_rpm max_rpm max_forward_speed =
     ''<motor torqueScale="'' @ torque_scale @ ''" minRpm="'' @ min_rpm @
     ''" maxRpm="'' @ max_rpm @ ''" maxForwardSpeed="'' @ max_forward_speed @
     ''" maxBackwardSpeed="22" brakeForce="2" lowBrakeForceScale="0.1" dampingRateScale="0.2">''\<close>

definition torque_line :: "formatters \<Rightarrow> real \<times> real \<Rightarrow> string" where
  \<open>torque_line F p =
     ''            <torque rpm="'' @ fmt_0f F (fst p) @ ''" torque="'' @ fmt_2f F (snd p) @
     ''"/>'' @ [CHR 0x0A]\<close>

definition xml_closing :: string where
  \<open>xml_closing =
     ''    </motorConfiguration>'' @ [CHR 0x0A] @ ''</motorConfigurations>''\<close>

definition engine_xml_text :: "formatters \<Rightarrow> engine_data \<Rightarrow> (real \<times> real) list \<Rightarrow> string" where
  \<open>engine_xml_text F engine_data actual_rpm_torque =
     xml_prolog @
     motor_configuration_open (e_name engine_data) (str_float F (e_horsepower engine_data))
       (str_int F (e_cost engine_data)) @
     ''        '' @
     motor_tag (str_float F (e_fuel_usage_scale engine_data))
       (str_float F (e_min_rpm engine_data)) (str_float F (e_max_rpm engine_data)) ''120'' @
     [CHR 0x0A] @
     concat (map (torque_line F) actual_rpm_torque) @
     ''        </motor>'' @ [CHR 0x0A] @
     xml_closing\<close>

definition generate_engine_xml :: "formatters \<Rightarrow> engine_data \<Rightarrow> py_error + string" where
  "generate_engine_xml F engine_data =
     (case generate_torque_curve (e_horsepower engine_data) (e_min_rpm engine_data)
             (e_max_rpm engine_data) (e_turbocharged engine_data) of
        Inl e \<Rightarrow> Inl e
      | Inr torque_curve \<Rightarrow>
          (case actual_rpm_torque_of (e_max_rpm engine_data) torque_curve of
             Inl e \<Rightarrow> Inl e
           | Inr actual_rpm_torque \<Rightarrow>
               Inr (format_xml (engine_xml_text F engine_data actual_rpm_torque))))"

text \<open>
  \<^verbatim>\<open>str.lower()\<close> on code points below 256: the capital letters of ASCII and of Latin-1
  move up by 32.
\<close>

definition lower_char :: "char \<Rightarrow> char" where
  "lower_char c =
     (let n = (of_char c :: nat)
      in if (65 \<le> n \<and> n \<le> 90) \<or> (192 \<le> n \<and> n \<le> 222 \<and> n \<noteq> 215)
         then char_of (n + 32) else c)"

definition py_lower :: "string \<Rightarrow> string" where
  "py_lower s = map lower_char s"

definition transmission_open :: "string \<Rightarrow> string \<Rightarrow> string \<Rightarrow> string" where
  \<open>transmission_open auto_gear_change_time gear_change_time name =
     ''        <transmission autoGearChangeTime="'' @ auto_gear_change_time @
     ''" gearChangeTime="'' @ gear_change_time @ ''" name="'' @ name @
     ''" axleRatio="25" startGearThreshold="0.3">'' @ [CHR 0x0A] @
     ''            <directionChange useGear="true"/>'' @ [CHR 0x0A]\<close>

definition backward_gear_line :: "formatters \<Rightarrow> nat \<Rightarrow> nat \<times> real \<Rightarrow> string" where
  \<open>backward_gear_line F count p =
     ''            <backwardGear gearRatio="'' @ fmt_3f F (snd p) @ ''" name="R'' @
     (if 1 < count then str_int F (int (fst p) + 1) else []) @ ''"/>'' @ [CHR 0x0A]\<close>

definition forward_gear_line :: "formatters \<Rightarrow> nat \<times> real \<Rightarrow> string" where
  \<open>forward_gear_line F p =
     ''            <forwardGear gearRatio="'' @ fmt_3f F (snd p) @ ''"/>'' @ [CHR 0x0A]\<close>

definition enumerate_list :: "'a list \<Rightarrow> (nat \<times> 'a) list" where
  "enumerate_list xs = zip [0..<length xs] xs"

definition combined_xml_text ::
  "formatters \<Rightarrow> engine_data \<Rightarrow> transmission_data \<Rightarrow> (real \<times> real) list \<Rightarrow> gear_ratios \<Rightarrow> string" where
  \<open>combined_xml_text F engine_data transmission_data actual_rpm_torque ratios =
     (let auto_gear_change_time =
            (if py_lower (t_type transmission_data) = ''automatic'' then ''1'' else ''0'');
          gear_change_time = ''0.3''
      in xml_prolog @
         motor_configuration_open (e_name engine_data @ '' - '' @ t_name transmission_data)
           (str_float F (e_horsepower engine_data))
           (str_int F (e_cost engine_data + t_cost transmission_data)) @
         ''        '' @
         motor_tag (str_float F (e_fuel_usage_scale engine_data))
           (str_float F (e_min_rpm engine_data)) (str_float F (e_max_rpm engine_data))
           (str_float F (t_top_speed transmission_data)) @
         [CHR 0x0A] @
         concat (map (torque_line F) actual_rpm_torque) @
         ''        </motor>'' @ [CHR 0x0A] @
         transmission_open auto_gear_change_time gear_change_time (t_name transmission_data) @
         concat (map (backward_gear_line F (length (reverse ratios)))
                   (enumerate_list (reverse ratios))) @
         concat (map (forward_gear_line F) (enumerate_list (forward ratios))) @
         ''        </transmission>'' @ [CHR 0x0A] @
         xml_closing)\<close>

definition generate_combined_fs25_xml ::
  "formatters \<Rightarrow> engine_data \<Rightarrow> transmission_data \<Rightarrow> py_error + string" where
  "generate_combined_fs25_xml F engine_data transmission_data =
     (case generate_torque_curve (e_horsepower engine_data) (e_min_rpm engine_data)
             (e_max_rpm engine_data) (e_turbocharged engine_data) of
        Inl e \<Rightarrow> Inl e
      | Inr torque_curve \<Rightarrow>
          (case actual_rpm_torque_of (e_max_rpm engine_data) torque_curve of
             Inl e \<Rightarrow> Inl e
           | Inr actual_rpm_torque \<Rightarrow>
               (case calculate_gear_ratios (t_type transmission_data)
                       (t_num_forward transmission_data) (t_num_reverse transmission_data)
                       (t_top_speed transmission_data)
                       (case t_enable_low_gearing transmission_data of
                          None \<Rightarrow> False | Some v \<Rightarrow> v)
                       (case t_low_gear_boost transmission_data of
                          None \<Rightarrow> 25.0 | Some v \<Rightarrow> v) of
                  Inl e \<Rightarrow> Inl e
                | Inr ratios \<Rightarrow>
                    Inr (format_xml
                           (combined_xml_text F engine_data transmission_data
                              actual_rpm_torque ratios)))))"


text \<open>
  An instance of the conversions for closed examples: decimal digits of an integer, and
  a number with a fixed count of decimals, rounded half to even in exact arithmetic. A
  float is shown with one decimal, which is Python's text for the whole numbers of the
  examples.
\<close>

function dec_nat :: "nat \<Rightarrow> string" where
  "dec_nat n =
     (if n < 10 then [''0123456789'' ! n]
      else dec_nat (n div 10) @ [''0123456789'' ! (n mod 10)])"
  by pat_completeness auto
termination
  by (relation "measure id") auto

declare dec_nat.simps [simp del]

definition dec_int :: "int \<Rightarrow> string" where
  "dec_int i = (if i < 0 then CHR ''-'' # dec_nat (nat (- i)) else dec_nat (nat i))"

definition fmt_fixed :: "nat \<Rightarrow> real \<Rightarrow> string" where
  "fmt_fixed d x =
     (let k = nat (round_half_even (\<bar>x\<bar> * 10 ^ d));
          digits = dec_nat (k mod 10 ^ d)
      in (if x < 0 then ''-'' else []) @ dec_nat (k div 10 ^ d) @
         (if d = 0 then []
          else CHR ''.'' # replicate (d - length digits) CHR ''0'' @ digits))"

definition sample_formatters :: formatters where
  "sample_formatters =
     \<lparr>str_float = fmt_fixed 1, str_int = dec_int, fmt_0f = fmt_fixed 0,
      fmt_2f = fmt_fixed 2, fmt_3f = fmt_fixed 3\<rparr>"

subsection \<open>Loading a preset\<close>

text \<open>
  The value that \<^verbatim>\<open>json.load\<close> returns. An object is the association list of its dict,
  read with \<open>map_of\<close>.
\<close>

datatype json =
    JNull
  | JBool bool
  | JInt int
  | JFloat real
  | JStr string
  | JList "json list"
  | JObj "(string \<times> json) list"

text \<open>Truth value of a loaded value, as \<^verbatim>\<open>if preset_data:\<close> and \<^verbatim>\<open>bool(...)\<close> take it.\<close>

fun py_bool :: "json \<Rightarrow> bool" where
  "py_bool JNull = False"
| "py_bool (JBool b) = b"
| "py_bool (JInt n) = (n \<noteq> 0)"
| "py_bool (JFloat x) = (x \<noteq> 0)"
| "py_bool (JStr s) = (s \<noteq> [])"
| "py_bool (JList xs) = (xs \<noteq> [])"
| "py_bool (JObj kvs) = (kvs \<noteq> [])"

text \<open>
  \<^verbatim>\<open>key in value\<close> for a string key: a key of a dict, an element of a list, a substring
  of a string; any other value is not iterable.
\<close>

fun py_in :: "string \<Rightarrow> json \<Rightarrow> py_error + bool" where
  "py_in key (JObj kvs) = Inr (map_of kvs key \<noteq> None)"
| "py_in key (JList xs) = Inr (JStr key \<in> set xs)"
| "py_in key (JStr s) = Inr (sublist key s)"
| "py_in key _ = Inl TypeError"

text \<open>\<^verbatim>\<open>value[key]\<close> for a string key: only a dict can be read so.\<close>

fun py_getitem :: "json \<Rightarrow> string \<Rightarrow> py_error + json" where
  "py_getitem (JObj kvs) key =
     (case map_of kvs key of None \<Rightarrow> Inl (KeyError key) | Some v \<Rightarrow> Inr v)"
| "py_getitem _ key = Inl TypeError"

text \<open>
  The variables of the form: the text fields hold strings, the two check boxes
  booleans. The message boxes shown so far are part of the state; the text of an
  exception inside a message is kept as the exception.
\<close>

record engine_vars =
  ev_name :: string
  ev_cost :: string
  ev_horsepower :: string
  ev_min_rpm :: string
  ev_max_rpm :: string
  ev_fuel_usage_scale :: string
  ev_turbocharged :: bool

record transmission_vars =
  tv_name :: string
  tv_cost :: string
  tv_type :: string
  tv_top_speed :: string
  tv_num_forward :: string
  tv_num_reverse :: string
  tv_enable_low_gearing :: bool
  tv_low_gear_boost :: string

datatype dialog =
    ShowError string string py_error
  | ShowInfo string string

record form_state =
  engine_form :: engine_vars
  transmission_form :: transmission_vars
  dialogs :: "dialog list"

definition show_dialog :: "dialog \<Rightarrow> form_state \<Rightarrow> form_state" where
  "show_dialog d st = st\<lparr>dialogs := dialogs st @ [d]\<rparr>"

definition required_engine_fields :: "string list" where
  "required_engine_fields =
     [''name'', ''cost'', ''horsepower'', ''min_rpm'', ''max_rpm'', ''fuel_usage_scale'',
      ''turbocharged'']"

definition required_trans_fields :: "string list" where
  "required_trans_fields =
     [''name'', ''cost'', ''type'', ''top_speed'', ''num_forward'', ''num_reverse'',
      ''enable_low_gearing'', ''low_gear_boost'']"

text \<open>The loop \<^verbatim>\<open>for field in required: if field not in obj: raise ValueError(...)\<close>.\<close>

fun check_required :: "string \<Rightarrow> string list \<Rightarrow> json \<Rightarrow> py_error + unit" where
  "check_required message [] obj = Inr ()"
| "check_required message (field # others) obj =
     (case py_in field obj of
        Inl e \<Rightarrow> Inl e
      | Inr present \<Rightarrow>
          if \<not> present then Inl (ValueError (message @ field))
          else check_required message others obj)"

text \<open>
  One statement \<^verbatim>\<open>vars[key].set(conv(obj[key]))\<close>. The statements of a section run in
  a row inside one \<^verbatim>\<open>try\<close>: an exception stops them, and what was set before stays set.
\<close>

definition set_var ::
  "(json \<Rightarrow> 'v) \<Rightarrow> ('v \<Rightarrow> 's \<Rightarrow> 's) \<Rightarrow> json \<Rightarrow> string \<Rightarrow>
   's \<times> py_error option \<Rightarrow> 's \<times> py_error option" where
  "set_var conv update obj key st =
     (case snd st of
        Some e \<Rightarrow> st
      | None \<Rightarrow>
          (case py_getitem obj key of
             Inl e \<Rightarrow> (fst st, Some e)
           | Inr v \<Rightarrow> (update (conv v) (fst st), None)))"

definition load_engine_section ::
  "(json \<Rightarrow> string) \<Rightarrow> json \<Rightarrow> engine_vars \<Rightarrow> engine_vars \<times> py_error option" where
  "load_engine_section py_str preset_data vars =
     (case py_getitem preset_data ''engine'' of
        Inl e \<Rightarrow> (vars, Some e)
      | Inr engine \<Rightarrow>
          (case check_required ''Missing required engine field: '' required_engine_fields
                  engine of
             Inl e \<Rightarrow> (vars, Some e)
           | Inr _ \<Rightarrow>
               (let st = (vars, None);
                    st = set_var py_str (\<lambda>v s. s\<lparr>ev_name := v\<rparr>) engine ''name'' st;
                    st = set_var py_str (\<lambda>v s. s\<lparr>ev_cost := v\<rparr>) engine ''cost'' st;
                    st = set_var py_str (\<lambda>v s. s\<lparr>ev_horsepower := v\<rparr>) engine
                           ''horsepower'' st;
                    st = set_var py_str (\<lambda>v s. s\<lparr>ev_min_rpm := v\<rparr>) engine ''min_rpm'' st;
                    st = set_var py_str (\<lambda>v s. s\<lparr>ev_max_rpm := v\<rparr>) engine ''max_rpm'' st;
                    st = set_var py_str (\<lambda>v s. s\<lparr>ev_fuel_usage_scale := v\<rparr>) engine
                           ''fuel_usage_scale'' st;
                    st = set_var py_bool (\<lambda>v s. s\<lparr>ev_turbocharged := v\<rparr>) engine
                           ''turbocharged'' st
                in st)))"

definition load_transmission_section ::
  "(json \<Rightarrow> string) \<Rightarrow> json \<Rightarrow> transmission_vars \<Rightarrow> transmission_vars \<times> py_error option" where
  "load_transmission_section py_str preset_data vars =
     (case py_getitem preset_data ''transmission'' of
        Inl e \<Rightarrow> (vars, Some e)
      | Inr transmission \<Rightarrow>
          (case check_required ''Missing required transmission field: ''
                  required_trans_fields transmission of
             Inl e \<Rightarrow> (vars, Some e)
           | Inr _ \<Rightarrow>
               (let st = (vars, None);
                    st = set_var py_str (\<lambda>v s. s\<lparr>tv_name := v\<rparr>) transmission ''name'' st;
                    st = set_var py_str (\<lambda>v s. s\<lparr>tv_cost := v\<rparr>) transmission ''cost'' st;
                    st = set_var py_str (\<lambda>v s. s\<lparr>tv_type := v\<rparr>) transmission ''type'' st;
                    st = set_var py_str (\<lambda>v s. s\<lparr>tv_top_speed := v\<rparr>) transmission ''top_speed'' st;
                    st = set_var py_str (\<lambda>v s. s\<lparr>tv_num_forward := v\<rparr>) transmission
                           ''num_forward'' st;
                    st = set_var py_str (\<lambda>v s. s\<lparr>tv_num_reverse := v\<rparr>) transmission
                           ''num_reverse'' st;
                    st = set_var py_bool (\<lambda>v s. s\<lparr>tv_enable_low_gearing := v\<rparr>) transmission
                           ''enable_low_gearing'' st;
                    st = set_var py_str (\<lambda>v s. s\<lparr>tv_low_gear_boost := v\<rparr>) transmission
                           ''low_gear_boost'' st
                in st)))"

text \<open>
  The handlers of a section catch \<^verbatim>\<open>KeyError\<close>, \<^verbatim>\<open>ValueError\<close> and \<^verbatim>\<open>TypeError\<close>; anything
  else reaches the outer handler of \<open>load_current_preset\<close>.
\<close>

fun section_error :: "py_error \<Rightarrow> bool" where
  "section_error (KeyError _) = True"
| "section_error (ValueError _) = True"
| "section_error TypeError = True"
| "section_error _ = False"

definition outer_failure :: "py_error \<Rightarrow> form_state \<Rightarrow> form_state" where
  "outer_failure e st = show_dialog (ShowError ''Error'' ''Failed to load preset: '' e) st"

text \<open>
  \<open>load_current_preset\<close> once a file name has been chosen. \<open>loaded\<close> is the outcome of
  reading and parsing the file in \<open>PresetManager.load_preset\<close>, which on a failure shows
  its own message and returns \<^verbatim>\<open>None\<close>. \<open>py_str\<close> is Python's \<^verbatim>\<open>str\<close> on loaded values, a
  parameter of the model.
\<close>

definition load_current_preset ::
  "(json \<Rightarrow> string) \<Rightarrow> py_error + json \<Rightarrow> form_state \<Rightarrow> form_state" where
  "load_current_preset py_str loaded st =
     (case loaded of
        Inl e \<Rightarrow> outer_failure e st
      | Inr preset_data \<Rightarrow>
          if \<not> py_bool preset_data then st
          else
            (case py_in ''engine'' preset_data of
               Inl e \<Rightarrow> outer_failure e st
             | Inr has_engine \<Rightarrow>
                 (let (ev, err) =
                        (if has_engine
                         then load_engine_section py_str preset_data (engine_form st)
                         else (engine_form st, None));
                      st = st\<lparr>engine_form := ev\<rparr>
                  in case err of
                       Some e \<Rightarrow>
                         if section_error e
                         then show_dialog
                                (ShowError ''Error'' ''Invalid engine data in preset: '' e) st
                         else outer_failure e st
                     | None \<Rightarrow>
                         (case py_in ''transmission'' preset_data of
                            Inl e \<Rightarrow> outer_failure e st
                          | Inr has_trans \<Rightarrow>
                              (let (tv, err) =
                                     (if has_trans
                                      then load_transmission_section py_str preset_data
                                             (transmission_form st)
                                      else (transmission_form st, None));
                                   st = st\<lparr>transmission_form := tv\<rparr>
                               in case err of
                                    Some e \<Rightarrow>
                                      if section_error e
                                      then show_dialog
                                             (ShowError ''Error''
                                                ''Invalid transmission data in preset: '' e) st
                                      else outer_failure e st
                                  | None \<Rightarrow>
                                      show_dialog
                                        (ShowInfo ''Success'' ''Preset loaded successfully!'')
                                        st)))))"

text \<open>
  The form as \<open>__init__\<close> sets it up, with no message box shown yet, and an instance of
  \<^verbatim>\<open>str\<close> on loaded values for closed examples (the text of a list or of a dict is
  abridged there).
\<close>

definition initial_form :: form_state where
  "initial_form =
     \<lparr>engine_form =
        \<lparr>ev_name = ''Custom Engine'', ev_cost = ''10000'', ev_horsepower = ''300'',
         ev_min_rpm = ''600'', ev_max_rpm = ''3500'', ev_fuel_usage_scale = ''1.0'',
         ev_turbocharged = False\<rparr>,
      transmission_form =
        \<lparr>tv_name = ''Custom Transmission'', tv_cost = ''8000'', tv_type = ''Manual'',
         tv_top_speed = ''120'', tv_num_forward = ''6'', tv_num_reverse = ''1'',
         tv_enable_low_gearing = False, tv_low_gear_boost = ''25.0''\<rparr>,
      dialogs = []\<rparr>"

fun sample_str :: "json \<Rightarrow> string" where
  "sample_str JNull = ''None''"
| "sample_str (JBool b) = (if b then ''True'' else ''False'')"
| "sample_str (JInt n) = dec_int n"
| "sample_str (JFloat x) = fmt_fixed 1 x"
| "sample_str (JStr s) = s"
| "sample_str (JList xs) = ''[...]''"
| "sample_str (JObj kvs) = ''{...}''"

section \<open>Properties\<close>

subsection \<open>Properties of the gear ratio calculator\<close>


lemma calculate_gear_ratios_valid:
  assumes "0 < N" "0 \<le> R" "0 < t"
  shows "calculate_gear_ratios ty N R t low b =
         Inr \<lparr>forward = map (forward_ratio ty N low b) [0..<nat N],
              reverse = map (\<lambda>i. py_round3 (forward_ratio ty N low b 0 *
                                               (1.2 + real i * 0.3)))
                            [0..<nat R]\<rparr>"
proof -
  obtain n where n: "nat N = Suc n"
    using assms(1) by (cases "nat N") auto
  have fw: "map (forward_ratio ty N low b) [0..<nat N] =
            forward_ratio ty N low b 0 #
            map (forward_ratio ty N low b) [Suc 0..<Suc n]"
    unfolding n by (simp add: upt_conv_Cons del: upt_Suc)
  show ?thesis
  proof (cases "R = 0")
    case True
    with assms show ?thesis
      by (simp add: calculate_gear_ratios_def reverse_ratios_of_def)
  next
    case False
    with assms have "\<not> R \<le> 0" by simp
    with assms show ?thesis
      unfolding calculate_gear_ratios_def reverse_ratios_of_def Let_def fw
      by (simp add: fw[symmetric])
  qed
qed

text \<open>
  C10. The top speed is validated and never used: two positive top speeds give the same
  result, the same forward and reverse sequences or the same error, whatever the other
  arguments are.
\<close>

theorem top_speed_irrelevant:
  "0 < t1 \<Longrightarrow> 0 < t2 \<Longrightarrow>
   calculate_gear_ratios ty N R t1 low b =
   calculate_gear_ratios ty N R t2 low b"
  by (simp add: calculate_gear_ratios_def)

theorem top_speed_irrelevant_witness:
  "calculate_gear_ratios ''Manual'' 6 2 50 False 25 =
   calculate_gear_ratios ''Manual'' 6 2 120 False 25"
  using top_speed_irrelevant [of 50 120 "''Manual''" 6 2 False 25] by simp




text \<open>
  C4. Type Manual with 6 forward gears and low gearing disabled: the forward ratios are
  exactly \<open>[4.784, 2.423, 1.443, 1.0, 0.826, 0.643]\<close>.
\<close>

theorem manual_six_forward:
  assumes "0 \<le> R" "0 < t"
  shows "\<exists>r. calculate_gear_ratios ''Manual'' 6 R t False b = Inr r \<and>
             forward r = [4.784, 2.423, 1.443, 1.0, 0.826, 0.643]"
proof -
  have six: "[0..<nat 6] = [0, 1, 2, 3, 4, 5]"
    by (simp add: upt_rec)
  have "map (forward_ratio ''Manual'' 6 False b) [0..<nat 6] =
        [4.784, 2.423, 1.443, 1.0, 0.826, 0.643]"
    unfolding six by (simp add: forward_ratio_def base_ratio_def py_round3_def round_half_even_def Let_def)
  moreover have "(0::int) < 6" by simp
  ultimately show ?thesis
    using calculate_gear_ratios_valid [OF \<open>(0::int) < 6\<close> assms, of "''Manual''" False b]
    by simp
qed

theorem manual_six_forward_witness:
  "\<exists>r. calculate_gear_ratios ''Manual'' 6 2 50 False 25 = Inr r \<and>
       forward r = [4.784, 2.423, 1.443, 1.0, 0.826, 0.643]"
  using manual_six_forward [of 2 50 25] by simp







subsection \<open>Properties of the torque curve generator\<close>















subsection \<open>Properties of the XML generator\<close>






















text \<open>
  C7. For every engine with \<open>hp \<le> 0\<close>, \<open>min < 0\<close> or \<open>max \<le> min\<close> the torque curve generator
  fails with a \<open>ValueError\<close>, and the engine generator and the combined generator fail
  with the same error: no document is built, the call of the curve generator being their
  first step. With a valid horsepower and minimum, \<open>max \<le> min\<close> gives the message of the
  RPM check.
\<close>

theorem invalid_engine_no_xml:
  assumes "e_horsepower e \<le> 0 \<or> e_min_rpm e < 0 \<or> e_max_rpm e \<le> e_min_rpm e"
  shows "(\<exists>msg.
            generate_torque_curve (e_horsepower e) (e_min_rpm e) (e_max_rpm e)
              (e_turbocharged e) = Inl (ValueError msg) \<and>
            generate_engine_xml F e = Inl (ValueError msg) \<and>
            generate_combined_fs25_xml F e t = Inl (ValueError msg)) \<and>
         (0 < e_horsepower e \<and> 0 \<le> e_min_rpm e \<longrightarrow>
            generate_engine_xml F e =
              Inl (ValueError ''Maximum RPM must be greater than minimum RPM''))"
proof -
  have "\<exists>msg. generate_torque_curve (e_horsepower e) (e_min_rpm e) (e_max_rpm e)
                (e_turbocharged e) = Inl (ValueError msg)"
    using assms by (auto simp: generate_torque_curve_def)
  then obtain msg where
    msg: "generate_torque_curve (e_horsepower e) (e_min_rpm e) (e_max_rpm e)
            (e_turbocharged e) = Inl (ValueError msg)"
    by blast
  have a: "generate_engine_xml F e = Inl (ValueError msg)"
    by (simp add: generate_engine_xml_def msg)
  have b: "generate_combined_fs25_xml F e t = Inl (ValueError msg)"
    by (simp add: generate_combined_fs25_xml_def msg)
  have c: "generate_engine_xml F e =
           Inl (ValueError ''Maximum RPM must be greater than minimum RPM'')"
    if "0 < e_horsepower e" "0 \<le> e_min_rpm e"
    using that assms by (simp add: generate_engine_xml_def generate_torque_curve_def)
  show ?thesis
    using msg a b c by blast
qed

theorem invalid_engine_no_xml_witness:
  "generate_engine_xml sample_formatters
     \<lparr>e_name = ''7.3 Powerstroke'', e_cost = 8500, e_horsepower = 275, e_min_rpm = 3500,
      e_max_rpm = 600, e_fuel_usage_scale = 1, e_turbocharged = True\<rparr> =
   Inl (ValueError ''Maximum RPM must be greater than minimum RPM'')"
  using invalid_engine_no_xml
    [of "\<lparr>e_name = ''7.3 Powerstroke'', e_cost = 8500, e_horsepower = 275, e_min_rpm = 3500,
          e_max_rpm = 600, e_fuel_usage_scale = 1, e_turbocharged = True\<rparr>" sample_formatters]
  by simp




subsection \<open>Properties of the preset loader\<close>

lemma check_required_missing:
  "f \<in> set fs \<Longrightarrow> map_of obj f = None \<Longrightarrow>
   \<exists>g \<in> set fs. map_of obj g = None \<and>
     check_required msg fs (JObj obj) = Inl (ValueError (msg @ g))"
proof (induction fs)
  case Nil
  then show ?case by simp
next
  case (Cons a fs)
  show ?case
  proof (cases "map_of obj a = None")
    case True
    then show ?thesis by simp
  next
    case False
    with Cons.prems have "f \<in> set fs" by auto
    from Cons.IH [OF this Cons.prems(2)] False show ?thesis by auto
  qed
qed

lemma check_required_complete:
  "\<forall>g \<in> set fs. map_of obj g \<noteq> None \<Longrightarrow> check_required msg fs (JObj obj) = Inr ()"
  by (induction fs) auto

lemma engine_section_missing:
  assumes "map_of kvs ''engine'' = Some (JObj eng)"
    and "f \<in> set required_engine_fields" "map_of eng f = None"
  shows "\<exists>g \<in> set required_engine_fields. map_of eng g = None \<and>
           load_engine_section S (JObj kvs) ev =
           (ev, Some (ValueError (''Missing required engine field: '' @ g)))"
proof -
  obtain g where g: "g \<in> set required_engine_fields" "map_of eng g = None"
    "check_required ''Missing required engine field: '' required_engine_fields (JObj eng) =
     Inl (ValueError (''Missing required engine field: '' @ g))"
    using check_required_missing [OF assms(2,3)] by blast
  have "load_engine_section S (JObj kvs) ev =
        (ev, Some (ValueError (''Missing required engine field: '' @ g)))"
    by (simp add: load_engine_section_def assms(1) g(3))
  with g show ?thesis by blast
qed

lemma set_var_found:
  "map_of obj key = Some v \<Longrightarrow>
   set_var conv upd (JObj obj) key (s, None) = (upd (conv v) s, None)"
  by (simp add: set_var_def)

lemma engine_section_complete:
  assumes "map_of kvs ''engine'' = Some (JObj eng)"
    and "\<forall>g \<in> set required_engine_fields. map_of eng g \<noteq> None"
  shows "\<exists>ev'. load_engine_section S (JObj kvs) ev = (ev', None)"
proof -
  have c: "check_required ''Missing required engine field: '' required_engine_fields (JObj eng) =
           Inr ()"
    by (rule check_required_complete [OF assms(2)])
  from assms(2) obtain v1 v2 v3 v4 v5 v6 v7 where
    "map_of eng ''name'' = Some v1" "map_of eng ''cost'' = Some v2"
    "map_of eng ''horsepower'' = Some v3" "map_of eng ''min_rpm'' = Some v4"
    "map_of eng ''max_rpm'' = Some v5" "map_of eng ''fuel_usage_scale'' = Some v6"
    "map_of eng ''turbocharged'' = Some v7"
    unfolding required_engine_fields_def by auto
  then show ?thesis
    by (simp add: load_engine_section_def assms(1) c set_var_found Let_def)
qed


lemma load_engine_missing:
  assumes "kvs \<noteq> []" "map_of kvs ''engine'' = Some (JObj eng)"
    and "f \<in> set required_engine_fields" "map_of eng f = None"
  shows "\<exists>g \<in> set required_engine_fields. map_of eng g = None \<and>
           load_current_preset S (Inr (JObj kvs)) st =
           st\<lparr>dialogs := dialogs st @
                [ShowError ''Error'' ''Invalid engine data in preset: ''
                   (ValueError (''Missing required engine field: '' @ g))]\<rparr>"
proof -
  obtain g where g: "g \<in> set required_engine_fields" "map_of eng g = None"
    "load_engine_section S (JObj kvs) (engine_form st) =
     (engine_form st, Some (ValueError (''Missing required engine field: '' @ g)))"
    using engine_section_missing [OF assms(2-4)] by blast
  have "load_current_preset S (Inr (JObj kvs)) st =
        st\<lparr>dialogs := dialogs st @
             [ShowError ''Error'' ''Invalid engine data in preset: ''
                (ValueError (''Missing required engine field: '' @ g))]\<rparr>"
    using assms(1,2) by (simp add: load_current_preset_def g(3) show_dialog_def)
  with g show ?thesis by blast
qed

lemma load_transmission_missing:
  assumes "kvs \<noteq> []"
    and "map_of kvs ''engine'' = None \<or>
         (\<exists>eng. map_of kvs ''engine'' = Some (JObj eng) \<and>
                (\<forall>g \<in> set required_engine_fields. map_of eng g \<noteq> None))"
    and "map_of kvs ''transmission'' = Some (JObj tr)"
    and "f \<in> set required_trans_fields" "map_of tr f = None"
  shows "\<exists>g \<in> set required_trans_fields. map_of tr g = None \<and>
           transmission_form (load_current_preset S (Inr (JObj kvs)) st) =
             transmission_form st \<and>
           dialogs (load_current_preset S (Inr (JObj kvs)) st) =
             dialogs st @
             [ShowError ''Error'' ''Invalid transmission data in preset: ''
                (ValueError (''Missing required transmission field: '' @ g))]"
proof -
  obtain g where g: "g \<in> set required_trans_fields" "map_of tr g = None"
    and sec: "\<And>tv. load_transmission_section S (JObj kvs) tv =
       (tv, Some (ValueError (''Missing required transmission field: '' @ g)))"
  proof -
    obtain g where "g \<in> set required_trans_fields" "map_of tr g = None"
      "check_required ''Missing required transmission field: '' required_trans_fields (JObj tr) =
       Inl (ValueError (''Missing required transmission field: '' @ g))"
      using check_required_missing [OF assms(4,5)] by blast
    then show ?thesis
      by (intro that [of g]) (simp_all add: load_transmission_section_def assms(3))
  qed
  from assms(2) have
    "transmission_form (load_current_preset S (Inr (JObj kvs)) st) = transmission_form st \<and>
     dialogs (load_current_preset S (Inr (JObj kvs)) st) =
       dialogs st @
       [ShowError ''Error'' ''Invalid transmission data in preset: ''
          (ValueError (''Missing required transmission field: '' @ g))]"
  proof
    assume "map_of kvs ''engine'' = None"
    then show ?thesis
      using assms(1,3) by (simp add: load_current_preset_def sec show_dialog_def)
  next
    assume "\<exists>eng. map_of kvs ''engine'' = Some (JObj eng) \<and>
                  (\<forall>g \<in> set required_engine_fields. map_of eng g \<noteq> None)"
    then obtain eng where eng: "map_of kvs ''engine'' = Some (JObj eng)"
      "\<forall>g \<in> set required_engine_fields. map_of eng g \<noteq> None"
      by blast
    obtain ev' where "load_engine_section S (JObj kvs) (engine_form st) = (ev', None)"
      using engine_section_complete [OF eng] by blast
    then show ?thesis
      using assms(1,3) eng(1) by (simp add: load_current_preset_def sec show_dialog_def)
  qed
  with g show ?thesis by blast
qed


lemma absent_engine_key:
  assumes "kvs \<noteq> []" "map_of kvs ''engine'' = None"
  shows "engine_form (load_current_preset S (Inr (JObj kvs)) st) = engine_form st \<and>
         (\<forall>e. ShowError ''Error'' ''Invalid engine data in preset: '' e
                 \<in> set (dialogs (load_current_preset S (Inr (JObj kvs)) st)) \<longrightarrow>
              ShowError ''Error'' ''Invalid engine data in preset: '' e \<in> set (dialogs st))"
proof (cases "map_of kvs ''transmission''")
  case None
  with assms show ?thesis
    by (simp add: load_current_preset_def show_dialog_def)
next
  case (Some tr)
  obtain tv err where
    sec: "load_transmission_section S (JObj kvs) (transmission_form st) = (tv, err)"
    by (cases "load_transmission_section S (JObj kvs) (transmission_form st)")
  show ?thesis
  proof (cases err)
    case None
    with assms Some sec show ?thesis
      by (simp add: load_current_preset_def show_dialog_def)
  next
    case (Some e)
    with assms \<open>map_of kvs ''transmission'' = Some tr\<close> sec show ?thesis
      by (simp add: load_current_preset_def show_dialog_def outer_failure_def Let_def)
  qed
qed

lemma absent_transmission_key:
  assumes "kvs \<noteq> []" "map_of kvs ''transmission'' = None"
  shows "transmission_form (load_current_preset S (Inr (JObj kvs)) st) = transmission_form st \<and>
         (\<forall>e. ShowError ''Error'' ''Invalid transmission data in preset: '' e
                 \<in> set (dialogs (load_current_preset S (Inr (JObj kvs)) st)) \<longrightarrow>
              ShowError ''Error'' ''Invalid transmission data in preset: '' e
                 \<in> set (dialogs st))"
proof (cases "map_of kvs ''engine''")
  case None
  with assms show ?thesis
    by (simp add: load_current_preset_def show_dialog_def)
next
  case (Some eng)
  obtain ev err where
    sec: "load_engine_section S (JObj kvs) (engine_form st) = (ev, err)"
    by (cases "load_engine_section S (JObj kvs) (engine_form st)")
  show ?thesis
  proof (cases err)
    case None
    with assms Some sec show ?thesis
      by (simp add: load_current_preset_def show_dialog_def)
  next
    case (Some e)
    with assms \<open>map_of kvs ''engine'' = Some eng\<close> sec show ?thesis
      by (simp add: load_current_preset_def show_dialog_def outer_failure_def Let_def)
  qed
qed


text \<open>
  C9, amended. For a preset that is a non-empty object: a required field missing from
  its engine object makes the load report the missing field and change nothing else; a
  required field missing from its transmission object, the engine section being absent
  or complete, makes the load report the missing field and leave the transmission
  variables unchanged; an absent top-level key leaves the variables of its section
  unchanged and adds no error message for that section.
\<close>

theorem missing_preset_field:
  assumes "kvs \<noteq> []"
  shows "(\<forall>eng f.
            map_of kvs ''engine'' = Some (JObj eng) \<and>
            f \<in> set required_engine_fields \<and> map_of eng f = None \<longrightarrow>
            (\<exists>g \<in> set required_engine_fields. map_of eng g = None \<and>
               load_current_preset S (Inr (JObj kvs)) st =
               st\<lparr>dialogs := dialogs st @
                    [ShowError ''Error'' ''Invalid engine data in preset: ''
                       (ValueError (''Missing required engine field: '' @ g))]\<rparr>)) \<and>
         (\<forall>tr f.
            (map_of kvs ''engine'' = None \<or>
             (\<exists>eng. map_of kvs ''engine'' = Some (JObj eng) \<and>
                    (\<forall>g \<in> set required_engine_fields. map_of eng g \<noteq> None))) \<and>
            map_of kvs ''transmission'' = Some (JObj tr) \<and>
            f \<in> set required_trans_fields \<and> map_of tr f = None \<longrightarrow>
            (\<exists>g \<in> set required_trans_fields. map_of tr g = None \<and>
               transmission_form (load_current_preset S (Inr (JObj kvs)) st) =
                 transmission_form st \<and>
               dialogs (load_current_preset S (Inr (JObj kvs)) st) =
                 dialogs st @
                 [ShowError ''Error'' ''Invalid transmission data in preset: ''
                    (ValueError (''Missing required transmission field: '' @ g))])) \<and>
         (map_of kvs ''engine'' = None \<longrightarrow>
            engine_form (load_current_preset S (Inr (JObj kvs)) st) = engine_form st \<and>
            (\<forall>e. ShowError ''Error'' ''Invalid engine data in preset: '' e
                    \<in> set (dialogs (load_current_preset S (Inr (JObj kvs)) st)) \<longrightarrow>
                 ShowError ''Error'' ''Invalid engine data in preset: '' e
                    \<in> set (dialogs st))) \<and>
         (map_of kvs ''transmission'' = None \<longrightarrow>
            transmission_form (load_current_preset S (Inr (JObj kvs)) st) =
              transmission_form st \<and>
            (\<forall>e. ShowError ''Error'' ''Invalid transmission data in preset: '' e
                    \<in> set (dialogs (load_current_preset S (Inr (JObj kvs)) st)) \<longrightarrow>
                 ShowError ''Error'' ''Invalid transmission data in preset: '' e
                    \<in> set (dialogs st)))"
  using load_engine_missing [OF assms] load_transmission_missing [OF assms]
    absent_engine_key [OF assms] absent_transmission_key [OF assms]
  by (intro conjI allI impI) blast+

theorem missing_preset_field_witness:
  "load_current_preset sample_str
     (Inr (JObj [(''engine'',
                  JObj [(''name'', JStr ''7.3 Powerstroke''), (''cost'', JInt 8500),
                        (''horsepower'', JInt 275), (''min_rpm'', JInt 600),
                        (''max_rpm'', JInt 3500), (''fuel_usage_scale'', JFloat 1.0)])]))
     initial_form =
   initial_form\<lparr>dialogs :=
     [ShowError ''Error'' ''Invalid engine data in preset: ''
        (ValueError ''Missing required engine field: turbocharged'')]\<rparr>"
proof -
  define eng where
    "eng = [(''name'', JStr ''7.3 Powerstroke''), (''cost'', JInt 8500),
            (''horsepower'', JInt 275), (''min_rpm'', JInt 600),
            (''max_rpm'', JInt 3500), (''fuel_usage_scale'', JFloat 1.0)]"
  define kvs where "kvs = [(''engine'', JObj eng)]"
  have ne: "kvs \<noteq> []" by (simp add: kvs_def)
  have h: "map_of kvs ''engine'' = Some (JObj eng) \<and>
           ''turbocharged'' \<in> set required_engine_fields \<and>
           map_of eng ''turbocharged'' = None"
    by (simp add: kvs_def eng_def required_engine_fields_def)
  from missing_preset_field [OF ne, of sample_str initial_form] h
  obtain g where g: "g \<in> set required_engine_fields" "map_of eng g = None"
    "load_current_preset sample_str (Inr (JObj kvs)) initial_form =
     initial_form\<lparr>dialogs := dialogs initial_form @
       [ShowError ''Error'' ''Invalid engine data in preset: ''
          (ValueError (''Missing required engine field: '' @ g))]\<rparr>"
    by blast
  have "g = ''turbocharged''"
    using g(1,2) by (auto simp: required_engine_fields_def eng_def)
  with g(3) show ?thesis
    unfolding kvs_def eng_def by (simp add: initial_form_def)
qed

text \<open>
  C9, as stated, fails for an absent top-level key: a preset with a complete
  \<open>transmission\<close> object and no \<open>engine\<close> key loads the transmission and shows the success
  message, and no error.
\<close>

theorem absent_engine_key_counterexample:
  "load_current_preset sample_str
     (Inr (JObj [(''transmission'',
                  JObj [(''name'', JStr ''4-speed with Granny Gear''), (''cost'', JInt 5000),
                        (''type'', JStr ''Manual''), (''top_speed'', JInt 80),
                        (''num_forward'', JInt 5), (''num_reverse'', JInt 1),
                        (''enable_low_gearing'', JBool True),
                        (''low_gear_boost'', JFloat 50.0)])]))
     initial_form =
   initial_form
     \<lparr>transmission_form :=
        \<lparr>tv_name = ''4-speed with Granny Gear'', tv_cost = ''5000'', tv_type = ''Manual'',
         tv_top_speed = ''80'', tv_num_forward = ''5'', tv_num_reverse = ''1'',
         tv_enable_low_gearing = True, tv_low_gear_boost = ''50.0''\<rparr>,
      dialogs := [ShowInfo ''Success'' ''Preset loaded successfully!'']\<rparr>"
  by (simp add: load_current_preset_def load_transmission_section_def required_trans_fields_def
      set_var_def show_dialog_def initial_form_def Let_def dec_int_def dec_nat.simps
      fmt_fixed_def round_half_even_def)

end
